theory Spec2Isabelle
  imports Complex_Main
begin

section \<open>Numbers of the program\<close>

text \<open>
  snowoptics computes with numpy double-precision values. They are embedded as exact real
  numbers extended with the two infinities and not-a-number, with the IEEE conventions
  numpy follows for them: a non-zero number divided by zero is an infinity, 0/0 and
  inf - inf are NaN, the square root of a negative number is NaN, NaN propagates
  through arithmetic and every ordered comparison with NaN is false. Overflow and the sign
  of zero are not represented (zero counts as positive zero). Rounding is not represented
  either, with one exception: the addition inside \<open>np.mod\<close>, whose rounding decides whether
  the remainder can reach the modulus, goes through an explicit rounding function.

  The wavelengths and an array of refractive indices are numpy values; the other numeric
  arguments (angles, \<open>ssa\<close>, \<open>B\<close>, \<open>g\<close>, \<open>r_difftot\<close>, concentrations, densities) are Python
  floats. A division whose divisor is a numpy value yields an infinity or NaN at zero, as
  numpy does; the one division between two Python floats, \<open>2.0 / (ssa * rho_ice)\<close>, raises
  ZeroDivisionError at zero.
\<close>

datatype npf = Num real | PInf | NInf | NaN

definition inf_signed :: "real \<Rightarrow> npf" where
  "inf_signed s = (if 0 < s then PInf else if s < 0 then NInf else NaN)"

fun sign_of :: "npf \<Rightarrow> real" where
  "sign_of (Num a) = sgn a"
| "sign_of PInf = 1"
| "sign_of NInf = - 1"
| "sign_of NaN = 0"

fun np_neg :: "npf \<Rightarrow> npf" where
  "np_neg (Num a) = Num (- a)"
| "np_neg PInf = NInf"
| "np_neg NInf = PInf"
| "np_neg NaN = NaN"

fun np_add :: "npf \<Rightarrow> npf \<Rightarrow> npf" where
  "np_add (Num a) (Num b) = Num (a + b)"
| "np_add NaN y = NaN"
| "np_add x NaN = NaN"
| "np_add PInf NInf = NaN"
| "np_add NInf PInf = NaN"
| "np_add PInf y = PInf"
| "np_add x PInf = PInf"
| "np_add NInf y = NInf"
| "np_add x NInf = NInf"

fun np_mul :: "npf \<Rightarrow> npf \<Rightarrow> npf" where
  "np_mul (Num a) (Num b) = Num (a * b)"
| "np_mul NaN y = NaN"
| "np_mul x NaN = NaN"
| "np_mul x y = inf_signed (sign_of x * sign_of y)"

fun np_div :: "npf \<Rightarrow> npf \<Rightarrow> npf" where
  "np_div (Num a) (Num b) = (if b = 0 then inf_signed a else Num (a / b))"
| "np_div NaN y = NaN"
| "np_div x NaN = NaN"
| "np_div (Num a) y = Num 0"
| "np_div x (Num b) = inf_signed (sign_of x * (if b < 0 then - 1 else 1))"
| "np_div x y = NaN"

instantiation npf :: "{plus, minus, uminus, times, inverse}"
begin

definition plus_npf :: "npf \<Rightarrow> npf \<Rightarrow> npf" where
  "plus_npf x y = np_add x y"

definition uminus_npf :: "npf \<Rightarrow> npf" where
  "uminus_npf x = np_neg x"

definition minus_npf :: "npf \<Rightarrow> npf \<Rightarrow> npf" where
  "minus_npf x y = np_add x (np_neg y)"

definition times_npf :: "npf \<Rightarrow> npf \<Rightarrow> npf" where
  "times_npf x y = np_mul x y"

definition divide_npf :: "npf \<Rightarrow> npf \<Rightarrow> npf" where
  "divide_npf x y = np_div x y"

definition inverse_npf :: "npf \<Rightarrow> npf" where
  "inverse_npf x = np_div (Num 1) x"

instance ..

end

text \<open>Comparisons: \<open>np_lt x y\<close> is \<open>x < y\<close>, false as soon as one side is NaN.\<close>

fun np_lt :: "npf \<Rightarrow> npf \<Rightarrow> bool" where
  "np_lt (Num a) (Num b) = (a < b)"
| "np_lt NaN y = False"
| "np_lt x NaN = False"
| "np_lt x NInf = False"
| "np_lt PInf y = False"
| "np_lt NInf y = True"
| "np_lt x PInf = True"

definition np_eq :: "npf \<Rightarrow> npf \<Rightarrow> bool" where
  "np_eq x y = (x \<noteq> NaN \<and> y \<noteq> NaN \<and> x = y)"

definition np_le :: "npf \<Rightarrow> npf \<Rightarrow> bool" where
  "np_le x y = (np_lt x y \<or> np_eq x y)"

definition np_gt :: "npf \<Rightarrow> npf \<Rightarrow> bool" where
  "np_gt x y = np_lt y x"

definition np_ge :: "npf \<Rightarrow> npf \<Rightarrow> bool" where
  "np_ge x y = np_le y x"

definition np_ne :: "npf \<Rightarrow> npf \<Rightarrow> bool" where
  "np_ne x y = (\<not> np_eq x y)"

text \<open>The numpy functions the program calls.\<close>

fun np_cos :: "npf \<Rightarrow> npf" where
  "np_cos (Num a) = Num (cos a)"
| "np_cos x = NaN"

fun np_sin :: "npf \<Rightarrow> npf" where
  "np_sin (Num a) = Num (sin a)"
| "np_sin x = NaN"

fun np_arccos :: "npf \<Rightarrow> npf" where
  "np_arccos (Num a) = (if - 1 \<le> a \<and> a \<le> 1 then Num (arccos a) else NaN)"
| "np_arccos x = NaN"

fun np_sqrt :: "npf \<Rightarrow> npf" where
  "np_sqrt (Num a) = (if 0 \<le> a then Num (sqrt a) else NaN)"
| "np_sqrt PInf = PInf"
| "np_sqrt x = NaN"

fun np_exp :: "npf \<Rightarrow> npf" where
  "np_exp (Num a) = Num (exp a)"
| "np_exp PInf = PInf"
| "np_exp NInf = Num 0"
| "np_exp NaN = NaN"

fun np_abs :: "npf \<Rightarrow> npf" where
  "np_abs (Num a) = Num \<bar>a\<bar>"
| "np_abs NaN = NaN"
| "np_abs x = PInf"

definition np_where :: "bool \<Rightarrow> npf \<Rightarrow> npf \<Rightarrow> npf" where
  "np_where c x y = (if c then x else y)"

text \<open>\<open>np.clip(x, lo, hi)\<close> is \<open>minimum(maximum(x, lo), hi)\<close>; NaN stays NaN.\<close>

definition np_clip :: "npf \<Rightarrow> npf \<Rightarrow> npf \<Rightarrow> npf" where
  "np_clip x lo hi =
     (if x = NaN then NaN else if np_lt x lo then lo else if np_lt hi x then hi else x)"

definition np_radians :: "npf \<Rightarrow> npf" where
  "np_radians x = x * Num pi / Num 180"

definition np_degrees :: "npf \<Rightarrow> npf" where
  "np_degrees x = x * Num 180 / Num pi"

text \<open>
  Python's builtin \<open>max(a, b)\<close> keeps \<open>a\<close> unless \<open>b > a\<close>, so \<open>max(nan, 0)\<close> is NaN.
\<close>

definition py_max :: "npf \<Rightarrow> npf \<Rightarrow> npf" where
  "py_max a b = (if np_gt b a then b else a)"


text \<open>
  \<open>np.mod(x, m)\<close> on doubles is numpy's \<open>npy_divmod\<close>: the C remainder \<open>fmod(x, m)\<close>, which
  is exact, has the sign of \<open>x\<close> and is NaN for an infinite \<open>x\<close> or a zero \<open>m\<close>; when it is
  not zero and its sign differs from the sign of \<open>m\<close>, the modulus is added to it. That
  addition is a floating-point addition: \<open>rnd\<close> is its rounding, so that a remainder just
  below zero can come out as the modulus itself.
\<close>

definition trunc_toward_zero :: "real \<Rightarrow> int" where
  "trunc_toward_zero x = (if 0 \<le> x then \<lfloor>x\<rfloor> else \<lceil>x\<rceil>)"

definition fmod :: "real \<Rightarrow> real \<Rightarrow> real" where
  "fmod x m = x - m * of_int (trunc_toward_zero (x / m))"

fun np_mod :: "(real \<Rightarrow> real) \<Rightarrow> npf \<Rightarrow> real \<Rightarrow> npf" where
  "np_mod rnd (Num a) m =
     (if m = 0 then NaN
      else let r = fmod a m
           in if r \<noteq> 0 \<and> ((m < 0) \<noteq> (r < 0)) then Num (rnd (r + m)) else Num r)"
| "np_mod rnd x m = NaN"

section \<open>Arrays\<close>

text \<open>
  A numeric value is a numpy scalar or a one-dimensional array. Arithmetic broadcasts as
  numpy does: a scalar, or an array of length one, is combined with every element of the
  other operand, two arrays of the same length are combined element by element. Where
  numpy raises (two arrays of different lengths, none of length one) \<open>nd_bcast\<close> has
  the empty array; \<open>compute_co_single_scattering_albedo\<close>, the one place where two arrays
  supplied by the caller meet, raises the error before that is reached.
\<close>

datatype ndarray = Scalar npf | Array "npf list"

fun nd_map :: "(npf \<Rightarrow> npf) \<Rightarrow> ndarray \<Rightarrow> ndarray" where
  "nd_map f (Scalar a) = Scalar (f a)"
| "nd_map f (Array xs) = Array (map f xs)"

fun broadcastable :: "ndarray \<Rightarrow> ndarray \<Rightarrow> bool" where
  "broadcastable (Array xs) (Array ys) =
     (length xs = length ys \<or> length xs = 1 \<or> length ys = 1)"
| "broadcastable x y = True"

fun nd_bcast :: "(npf \<Rightarrow> npf \<Rightarrow> npf) \<Rightarrow> ndarray \<Rightarrow> ndarray \<Rightarrow> ndarray" where
  "nd_bcast f (Scalar a) (Scalar b) = Scalar (f a b)"
| "nd_bcast f (Scalar a) (Array ys) = Array (map (f a) ys)"
| "nd_bcast f (Array xs) (Scalar b) = Array (map (\<lambda>x. f x b) xs)"
| "nd_bcast f (Array xs) (Array ys) =
     (if length xs = length ys then Array (map2 f xs ys)
      else if length xs = 1 then Array (map (f (hd xs)) ys)
      else if length ys = 1 then Array (map (\<lambda>x. f x (hd ys)) xs)
      else Array [])"

instantiation ndarray :: "{plus, minus, uminus, times, inverse}"
begin

definition plus_ndarray :: "ndarray \<Rightarrow> ndarray \<Rightarrow> ndarray" where
  "plus_ndarray x y = nd_bcast (+) x y"

definition uminus_ndarray :: "ndarray \<Rightarrow> ndarray" where
  "uminus_ndarray x = nd_map uminus x"

definition minus_ndarray :: "ndarray \<Rightarrow> ndarray \<Rightarrow> ndarray" where
  "minus_ndarray x y = nd_bcast (-) x y"

definition times_ndarray :: "ndarray \<Rightarrow> ndarray \<Rightarrow> ndarray" where
  "times_ndarray x y = nd_bcast (*) x y"

definition divide_ndarray :: "ndarray \<Rightarrow> ndarray \<Rightarrow> ndarray" where
  "divide_ndarray x y = nd_bcast (/) x y"

definition inverse_ndarray :: "ndarray \<Rightarrow> ndarray" where
  "inverse_ndarray x = nd_map inverse x"

instance ..

end

text \<open>The elements of a value, for statements about every wavelength.\<close>

fun elements :: "ndarray \<Rightarrow> npf list" where
  "elements (Scalar a) = [a]"
| "elements (Array xs) = xs"

section \<open>Errors and collaborators\<close>

datatype error =
    AssertionError
  | ValueError string
  | NotImplementedError string
  | RuntimeError string
  | IndexError
  | ZeroDivisionError

text \<open>
  The refractive-index module is not part of the modelled file; its functions are
  parameters. Each is a function of one wavelength, applied to every element of the
  wavelengths (they are table interpolations). \<open>MAE_dust_caponi\<close> raises ValueError on a
  formulation it does not know: \<open>None\<close>. \<open>refice\<close> is taken to know every dataset name
  it is given.
\<close>

record collaborators =
  refice_imag :: "string \<Rightarrow> npf \<Rightarrow> npf"
  refsoot_imag :: "npf \<Rightarrow> npf \<Rightarrow> npf"
  refhulis_imag :: "npf \<Rightarrow> npf"
  refdust_imag :: "string option \<Rightarrow> npf \<Rightarrow> npf"
  MAE_dust_caponi :: "string \<Rightarrow> (npf \<Rightarrow> npf) option"

text \<open>
  The argument \<open>ni\<close> is a dataset name or an array of imaginary indices; an impurity is
  given by its concentration alone or by the pair of concentration and bulk density; the
  dictionary of impurities is the list of its items in iteration order, \<open>None\<close> when
  the argument is left out.
\<close>

datatype ni_arg = Dataset string | Values ndarray

datatype impurity = Bare npf | WithDensity npf npf

type_synonym impurities = "(string \<times> impurity) list option"

definition default_B :: npf where
  "default_B = Num (16 / 10)"

definition default_g :: npf where
  "default_g = Num (845 / 1000)"

section \<open>Single-scattering core\<close>

definition mac_from_index :: "ndarray \<Rightarrow> string \<Rightarrow> npf option \<Rightarrow> ndarray \<Rightarrow> error + ndarray" where
  "mac_from_index wavelengths species density_impurities abs_impurities =
     (case density_impurities of
        None \<Rightarrow> Inl (ValueError (''No default density for the impurities '' @ [CHR 0x27]
                                   @ species @ [CHR 0x27]))
      | Some d \<Rightarrow>
          Inr (Scalar (Num (6 * pi)) / wavelengths / Scalar d * nd_map np_abs abs_impurities))"

text \<open>
  The body of the loop over the species up to the value of \<open>MAC\<close>: the chain of
  comparisons on the species name, then the density test for the species that have an
  imaginary index.
\<close>

definition species_MAC ::
  "collaborators \<Rightarrow> ndarray \<Rightarrow> string \<Rightarrow> npf option \<Rightarrow> error + ndarray" where
  "species_MAC c wavelengths species density_impurities =
     (if species \<in> set [''soot'', ''BC''] then
        mac_from_index wavelengths species
          (case density_impurities of None \<Rightarrow> Some (Num 1270) | Some d \<Rightarrow> Some d)
          (nd_map (refsoot_imag c (Num 1)) wavelengths)
      else if species = ''hulis'' then
        mac_from_index wavelengths species density_impurities
          (nd_map (refhulis_imag c) wavelengths)
      else if species = ''dust'' then
        mac_from_index wavelengths species density_impurities
          (nd_map (refdust_imag c None) wavelengths)
      else if species = ''dust_skiles'' then
        mac_from_index wavelengths species density_impurities
          (nd_map (refdust_imag c (Some ''skiles2014'')) wavelengths)
      else if take 5 species = ''dust_'' then
        (case MAE_dust_caponi c (drop 5 species) of
           None \<Rightarrow> Inl (ValueError ''Invalid species'')
         | Some mae \<Rightarrow> Inr (nd_map mae wavelengths))
      else Inl (ValueError ''Invalid species''))"

fun content_of :: "impurity \<Rightarrow> npf" where
  "content_of (Bare x) = x"
| "content_of (WithDensity x d) = x"

fun density_of :: "impurity \<Rightarrow> npf option" where
  "density_of (Bare x) = None"
| "density_of (WithDensity x d) = Some d"

text \<open>The loop \<open>for species in impurities\<close>, the accumulator being \<open>cossalb\<close>.\<close>

fun add_impurities ::
  "collaborators \<Rightarrow> ndarray \<Rightarrow> npf \<Rightarrow> ndarray \<Rightarrow> (string \<times> impurity) list \<Rightarrow> error + ndarray" where
  "add_impurities c wavelengths ssa cossalb [] = Inr cossalb"
| "add_impurities c wavelengths ssa cossalb ((species, v) # rest) =
     (case species_MAC c wavelengths species (density_of v) of
        Inl e \<Rightarrow> Inl e
      | Inr MAC \<Rightarrow>
          add_impurities c wavelengths ssa
            (cossalb + Scalar (Num 2 / ssa * content_of v) * MAC) rest)"

definition compute_co_single_scattering_albedo ::
  "collaborators \<Rightarrow> ndarray \<Rightarrow> npf \<Rightarrow> impurities \<Rightarrow> ni_arg \<Rightarrow> npf \<Rightarrow> npf \<Rightarrow> error + ndarray" where
  "compute_co_single_scattering_albedo c wavelengths ssa impurities ni B g =
     (let ni_imag = (case ni of Dataset dataset_name \<Rightarrow> nd_map (refice_imag c dataset_name) wavelengths
                              | Values a \<Rightarrow> a)
      in if \<not> broadcastable ni_imag wavelengths
         then Inl (ValueError ''operands could not be broadcast together'')
         else
           let gamma = Scalar (Num (4 * pi)) * ni_imag / wavelengths;
               rho_ice = Num 917
           in if np_eq (ssa * rho_ice) (Num 0) then Inl ZeroDivisionError
              else
                let cossalb = Scalar (Num 2 / (ssa * rho_ice) * B) * gamma
                in (case impurities of
                      None \<Rightarrow> Inr cossalb
                    | Some imps \<Rightarrow> add_impurities c wavelengths ssa cossalb imps))"

definition compute_alpha ::
  "collaborators \<Rightarrow> ndarray \<Rightarrow> npf \<Rightarrow> impurities \<Rightarrow> ni_arg \<Rightarrow> npf \<Rightarrow> npf \<Rightarrow> error + ndarray" where
  "compute_alpha c wavelengths ssa impurities ni B g =
     (case compute_co_single_scattering_albedo c wavelengths ssa impurities ni B g of
        Inl e \<Rightarrow> Inl e
      | Inr cossalb \<Rightarrow> Inr (Scalar (Num (16 / 3)) * cossalb / Scalar (Num 1 - g)))"

section \<open>Flat-terrain albedo, Kokhanovsky and Zege 2004\<close>

definition albedo_diffuse_KZ04 ::
  "collaborators \<Rightarrow> ndarray \<Rightarrow> npf \<Rightarrow> impurities \<Rightarrow> ni_arg \<Rightarrow> npf \<Rightarrow> npf \<Rightarrow> error + ndarray" where
  "albedo_diffuse_KZ04 c wavelengths ssa impurities ni B g =
     (case compute_alpha c wavelengths ssa impurities ni B g of
        Inl e \<Rightarrow> Inl e
      | Inr alpha \<Rightarrow> Inr (nd_map np_exp (- nd_map np_sqrt alpha)))"

definition albedo_direct_KZ04 ::
  "collaborators \<Rightarrow> ndarray \<Rightarrow> npf \<Rightarrow> npf \<Rightarrow> impurities \<Rightarrow> ni_arg \<Rightarrow> npf \<Rightarrow> npf \<Rightarrow> error + ndarray" where
  "albedo_direct_KZ04 c wavelengths sza ssa impurities ni B g =
     (case compute_alpha c wavelengths ssa impurities ni B g of
        Inl e \<Rightarrow> Inl e
      | Inr alpha \<Rightarrow>
          let cos_sza = np_cos sza
          in if \<not> np_ge cos_sza (Num 0) then Inl AssertionError
             else Inr (nd_map np_exp
                    (- nd_map np_sqrt alpha * Scalar (Num 3) / Scalar (Num 7)
                       * Scalar (Num 1 + Num 2 * cos_sza))))"

definition albedo_KZ04 ::
  "collaborators \<Rightarrow> ndarray \<Rightarrow> npf \<Rightarrow> npf \<Rightarrow> npf \<Rightarrow> impurities \<Rightarrow> ni_arg \<Rightarrow> npf \<Rightarrow> npf \<Rightarrow> error + ndarray" where
  "albedo_KZ04 c wavelengths sza ssa r_difftot impurities ni B g =
     (case albedo_direct_KZ04 c wavelengths sza ssa impurities ni B g of
        Inl e \<Rightarrow> Inl e
      | Inr direct \<Rightarrow>
          (case albedo_diffuse_KZ04 c wavelengths ssa impurities ni B g of
             Inl e \<Rightarrow> Inl e
           | Inr diffuse \<Rightarrow>
               Inr (Scalar (Num 1 - r_difftot) * direct + Scalar r_difftot * diffuse)))"

section \<open>Flat-terrain albedo, Malinka 2016\<close>

definition G :: "npf \<Rightarrow> npf" where
  "G theta = Num (3 / 7) * (Num 1 + Num 2 * np_cos theta)"

definition y_M16 :: "ndarray \<Rightarrow> npf \<Rightarrow> ndarray" where
  "y_M16 w0 g =
     Scalar (Num 4) * nd_map np_sqrt
       ((Scalar (Num 1) - w0) / (Scalar (Num 3) * (Scalar (Num 1) - w0 * Scalar g)))"

definition albedo_direct_M16 ::
  "collaborators \<Rightarrow> ndarray \<Rightarrow> npf \<Rightarrow> npf \<Rightarrow> impurities \<Rightarrow> ni_arg \<Rightarrow> npf \<Rightarrow> npf \<Rightarrow> error + ndarray" where
  "albedo_direct_M16 c wavelengths sza ssa impurities ni B g =
     (case compute_co_single_scattering_albedo c wavelengths ssa impurities ni B g of
        Inl e \<Rightarrow> Inl e
      | Inr cossalb \<Rightarrow>
          let w0 = Scalar (Num 1) - cossalb;
              y = y_M16 w0 g;
              theta0 = sza
          in Inr (nd_map np_exp (- y * Scalar (G theta0))))"

definition albedo_diffuse_M16 ::
  "collaborators \<Rightarrow> ndarray \<Rightarrow> npf \<Rightarrow> impurities \<Rightarrow> ni_arg \<Rightarrow> npf \<Rightarrow> npf \<Rightarrow> error + ndarray" where
  "albedo_diffuse_M16 c wavelengths ssa impurities ni B g =
     (case compute_co_single_scattering_albedo c wavelengths ssa impurities ni B g of
        Inl e \<Rightarrow> Inl e
      | Inr cossalb \<Rightarrow>
          let w0 = Scalar (Num 1) - cossalb;
              y = y_M16 w0 g
          in Inr (nd_map np_exp (- y)))"

definition albedo_M16 ::
  "collaborators \<Rightarrow> ndarray \<Rightarrow> npf \<Rightarrow> npf \<Rightarrow> npf \<Rightarrow> impurities \<Rightarrow> ni_arg \<Rightarrow> npf \<Rightarrow> npf \<Rightarrow> error + ndarray" where
  "albedo_M16 c wavelengths sza ssa r_difftot impurities ni B g =
     (case albedo_direct_M16 c wavelengths sza ssa impurities ni B g of
        Inl e \<Rightarrow> Inl e
      | Inr direct \<Rightarrow>
          (case albedo_diffuse_M16 c wavelengths ssa impurities ni B g of
             Inl e \<Rightarrow> Inl e
           | Inr diffuse \<Rightarrow>
               Inr (Scalar (Num 1 - r_difftot) * direct + Scalar r_difftot * diffuse)))"

section \<open>Geometry transform\<close>

text \<open>\<open>local_sza\<close>: the effective solar zenith angle on a slope.\<close>

definition local_sza :: "npf \<Rightarrow> npf \<Rightarrow> npf \<Rightarrow> npf \<Rightarrow> npf" where
  "local_sza sza saa slope aspect =
     (let mu = np_cos sza * np_cos slope + np_sin sza * np_sin slope * np_cos (saa - aspect)
      in np_arccos mu)"

text \<open>
  \<open>local_viewing_angle\<close> on scalar angles (its \<open>if mu_i < 0.000001\<close> needs a scalar);
  the result is the triple \<open>(theta_i_eff, theta_v_eff, raa_eff)\<close>.
\<close>

definition local_viewing_angle ::
  "npf \<Rightarrow> npf \<Rightarrow> npf \<Rightarrow> npf \<Rightarrow> npf \<Rightarrow> npf \<Rightarrow> npf \<times> npf \<times> npf" where
  "local_viewing_angle theta_i phi_i theta_v phi_v slope aspect =
     (let mu_i0 = np_cos theta_i * np_cos slope
                  + np_sin theta_i * np_sin slope * np_cos (phi_i - aspect);
          mu_i = (if np_lt mu_i0 (Num (1 / 1000000)) then NaN else mu_i0);
          mu_v = np_cos theta_v * np_cos slope
                 + np_sin theta_v * np_sin slope * np_cos (phi_v - aspect);
          theta_i_eff = np_arccos mu_i;
          theta_v_eff0 = np_arccos mu_v;
          theta_v_eff = np_where (np_gt theta_v_eff0 (np_radians (Num 90))) NaN theta_v_eff0;
          mu_az_numerator = np_cos theta_v * np_cos theta_i
                            + np_sin theta_v * np_sin theta_i * np_cos (phi_v - phi_i)
                            - mu_i * mu_v;
          mu_az_denominator = np_sin theta_i_eff * np_sin theta_v_eff;
          mu_az0 = np_where (np_ne mu_az_denominator (Num 0))
                     (mu_az_numerator / mu_az_denominator) (Num 0);
          mu_az = np_clip mu_az0 (Num (- 1)) (Num 1);
          raa_eff = np_arccos mu_az
      in (theta_i_eff, theta_v_eff, raa_eff))"

section \<open>Albedo on a tilted terrain, Picard et al. 2020\<close>

text \<open>
  \<open>if fixed_flat_albedo:\<close> is Python's truth test: \<open>None\<close> and zero are false, every
  other number (NaN too) is true.
\<close>

fun truthy :: "npf option \<Rightarrow> bool" where
  "truthy None = False"
| "truthy (Some x) = (x \<noteq> Num 0)"

text \<open>
  The three flat albedos \<open>(alb_loc_dir, alb_dir, alb_diff)\<close>: the fixed value, or the
  direct albedo at the local and at the true solar zenith angle and the diffuse albedo,
  evaluated in this order.
\<close>

definition flat_albedos ::
  "collaborators \<Rightarrow> ndarray \<Rightarrow> npf \<Rightarrow> npf \<Rightarrow> npf \<Rightarrow> npf option \<Rightarrow> impurities \<Rightarrow> ni_arg \<Rightarrow> npf \<Rightarrow> npf
     \<Rightarrow> error + (ndarray \<times> ndarray \<times> ndarray)" where
  "flat_albedos c wavelengths sza lsza ssa fixed_flat_albedo impurities ni B g =
     (if truthy fixed_flat_albedo
      then Inr (Scalar (the fixed_flat_albedo), Scalar (the fixed_flat_albedo),
                Scalar (the fixed_flat_albedo))
      else
        (case albedo_direct_KZ04 c wavelengths lsza ssa impurities ni B g of
           Inl e \<Rightarrow> Inl e
         | Inr alb_loc_dir \<Rightarrow>
             (case albedo_direct_KZ04 c wavelengths sza ssa impurities ni B g of
                Inl e \<Rightarrow> Inl e
              | Inr alb_dir \<Rightarrow>
                  (case albedo_diffuse_KZ04 c wavelengths ssa impurities ni B g of
                     Inl e \<Rightarrow> Inl e
                   | Inr alb_diff \<Rightarrow> Inr (alb_loc_dir, alb_dir, alb_diff)))))"

text \<open>
  The branch \<open>(not measured_difftot) and (model in ['DM', 'SM'])\<close>, after the albedo of
  the model at the top of the hill has been computed. \<open>M**2\<close> is \<open>M * M\<close>.
\<close>

definition P20_middle ::
  "string \<Rightarrow> npf \<Rightarrow> npf \<Rightarrow> ndarray \<Rightarrow> npf \<Rightarrow> ndarray \<Rightarrow> ndarray \<Rightarrow> ndarray \<Rightarrow> ndarray
     \<Rightarrow> error + ndarray" where
  "P20_middle model K V M r_difftot albedo_top alb_loc_dir alb_dir alb_diff =
     (if model = ''DM'' then
        (if np_gt K (Num 0) then
           Inr (albedo_top / (Scalar (Num 1 - (Num 1 - V) * r_difftot)
                              + Scalar ((Num 1 - V) / V) * albedo_top))
         else if np_gt r_difftot (Num 0) then
           Inr (Scalar V * alb_diff / (Scalar (Num 1) + M))
         else Inr (Scalar NaN))
      else if model = ''SM'' then
        (if np_gt K (Num 0) then
           Inr (albedo_top / (Scalar (Num 1) + Scalar (Num 1 - V) *
                  (Scalar (Num 1 - r_difftot) * (Scalar K * alb_loc_dir + M * alb_dir)
                     / (Scalar (Num 1) - M * M)
                   + Scalar r_difftot
                     * (Scalar V / (Scalar (Num 1) - M) * alb_diff - Scalar (Num 1)))))
         else if np_gt r_difftot (Num 0) then Inr alb_diff
         else Inr (Scalar NaN))
      else Inl (RuntimeError ''should not be here''))"

text \<open>The chain \<open>if model == ...\<close> that gives \<open>(Adir, Adiff)\<close> or raises.\<close>

definition P20_components ::
  "string \<Rightarrow> npf \<Rightarrow> npf \<Rightarrow> ndarray \<Rightarrow> ndarray \<Rightarrow> ndarray \<Rightarrow> ndarray
     \<Rightarrow> error + (ndarray \<times> ndarray)" where
  "P20_components model K V M alb_loc_dir alb_dir alb_diff =
     (if model = ''small_slope'' then
        Inr (Scalar K * alb_loc_dir, alb_diff)
      else if model = ''DT'' then
        Inr (Scalar (V * K) * alb_loc_dir, Scalar (V * V) * alb_diff)
      else if model = ''DM'' then
        (if np_eq K (Num 0) then Inl (NotImplementedError ''Incorrect in the self-shadow'')
         else Inr (Scalar V / (Scalar (Num 1) + M) * Scalar K * alb_loc_dir,
                   Scalar V / (Scalar (Num 1) + M) * alb_diff))
      else if model = ''ST'' then
        Inr (((Scalar V + M * Scalar (Num 1 - V)) * Scalar K * alb_loc_dir
              + (M * Scalar V + Scalar (Num 1 - V)) * alb_dir) / (Scalar (Num 1) - M * M),
             Scalar V / (Scalar (Num 1) - M) * alb_diff)
      else if model = ''SM'' then
        (if np_eq K (Num 0) then Inl (NotImplementedError ''Incorrect in the self-shadow'')
         else Inr (Scalar V / (Scalar (Num 1) + M) * Scalar K * alb_loc_dir
                   + Scalar (Num 1 - V) / (Scalar (Num 1) + M) * alb_dir,
                   alb_diff))
      else if model = ''flat'' then Inr (alb_dir, alb_diff)
      else Inl (ValueError ''Invalid slope model''))"

text \<open>
  The mixing and the final test: \<open>len(alpha)\<close> succeeds on an array, whose negative
  elements \<open>np.where\<close> replaces by NaN, and raises TypeError on a scalar, which is
  replaced by NaN when \<open>alpha < 0\<close>.
\<close>

definition P20_mix :: "npf \<Rightarrow> ndarray \<Rightarrow> ndarray \<Rightarrow> ndarray" where
  "P20_mix r_difftot Adir Adiff =
     (let alpha = Scalar (Num 1 - r_difftot) * Adir + Scalar r_difftot * Adiff
      in case alpha of
           Array xs \<Rightarrow> Array (map (\<lambda>a. np_where (np_ge a (Num 0)) a NaN) xs)
         | Scalar a \<Rightarrow> (if np_lt a (Num 0) then Scalar NaN else Scalar a))"

function albedo_P20_slope ::
  "collaborators \<Rightarrow> ndarray \<Rightarrow> npf \<Rightarrow> npf \<Rightarrow> npf \<Rightarrow> npf \<Rightarrow> npf \<Rightarrow> npf \<Rightarrow> string \<Rightarrow> bool \<Rightarrow> npf option
     \<Rightarrow> impurities \<Rightarrow> ni_arg \<Rightarrow> npf \<Rightarrow> npf \<Rightarrow> error + ndarray" where
  "albedo_P20_slope c wavelengths sza saa ssa r_difftot slope aspect model measured_difftot
       fixed_flat_albedo impurities ni B g =
     (let lsza = local_sza sza saa slope aspect
      in if np_ge lsza (Num (pi / 2)) \<or> np_lt lsza (Num 0) then Inr (Scalar NaN)
         else
           (case flat_albedos c wavelengths sza lsza ssa fixed_flat_albedo impurities ni B g of
              Inl e \<Rightarrow> Inl e
            | Inr (alb_loc_dir, alb_dir, alb_diff) \<Rightarrow>
                let K = py_max (np_cos lsza / np_cos sza) (Num 0);
                    V = (Num 1 + np_cos slope) / Num 2;
                    M = Scalar (Num 1 - V) * alb_diff
                in if \<not> measured_difftot \<and> model \<in> set [''DM'', ''SM''] then
                     (case albedo_P20_slope c wavelengths sza saa ssa r_difftot slope aspect
                             (butlast model @ ''T'') False fixed_flat_albedo impurities ni B g of
                        Inl e \<Rightarrow> Inl e
                      | Inr albedo_top \<Rightarrow>
                          P20_middle model K V M r_difftot albedo_top alb_loc_dir alb_dir alb_diff)
                   else
                     (case P20_components model K V M alb_loc_dir alb_dir alb_diff of
                        Inl e \<Rightarrow> Inl e
                      | Inr (Adir, Adiff) \<Rightarrow> Inr (P20_mix r_difftot Adir Adiff))))"
  by pat_completeness auto

termination
  by (relation "measure (\<lambda>(c, wavelengths, sza, saa, ssa, r_difftot, slope, aspect, model,
        measured_difftot, rest). if \<not> measured_difftot \<and> model \<in> set [''DM'', ''SM''] then 1 else 0)")
     auto

section \<open>Slope and aspect returned by the time-series retrieval\<close>

text \<open>
  \<open>albedo_timeseries_correction\<close> after the call of the scipy optimiser, whose result
  vector \<open>result\<close> is the argument: the optimiser is a collaborator, any vector is a
  possible outcome, NaN and infinite entries included. The vector has the length of
  \<open>params0\<close>, two or more; a shorter one would raise IndexError at \<open>result[0]\<close> or
  \<open>result[1]\<close>. \<open>rnd\<close> is the rounding of the addition inside \<open>np.mod\<close>. The value is
  \<open>(albedo_diff, slope, aspect)\<close>.
\<close>

definition albedo_timeseries_correction ::
  "(real \<Rightarrow> real) \<Rightarrow> npf list \<Rightarrow> error + (npf list \<times> npf \<times> npf)" where
  "albedo_timeseries_correction rnd result =
     (case result of
        slope0 # aspect0 # albedo_diff \<Rightarrow>
          let (slope, aspect) =
                (if np_lt slope0 (Num 0) then (- slope0, aspect0 + Num pi)
                 else (slope0, aspect0))
          in Inr (albedo_diff, slope, np_mod rnd aspect (2 * pi))
      | _ \<Rightarrow> Inl IndexError)"

section \<open>Zero-order reflectance, Kokhanovsky and Breon 2012\<close>

definition brf0_KB12 :: "npf \<Rightarrow> npf \<Rightarrow> npf \<Rightarrow> string \<Rightarrow> error + npf" where
  "brf0_KB12 theta_i theta_v phi RAA_formalism =
     (if RAA_formalism \<noteq> ''angular'' \<and> RAA_formalism \<noteq> ''vectorial''
      then Inl (ValueError ''Invalid RAA_formalism in brf0'')
      else
        let new_phi = (if RAA_formalism = ''angular'' then Num pi - phi else phi);
            theta = np_degrees (np_arccos (np_clip
                      (- np_cos theta_i * np_cos theta_v
                       + np_sin theta_i * np_sin theta_v * np_cos new_phi) (Num (- 1)) (Num 1)));
            phase = Num (111 / 10) * np_exp (Num (- (87 / 1000)) * theta)
                    + Num (11 / 10) * np_exp (Num (- (14 / 1000)) * theta);
            rr0 = Num (1247 / 1000) + Num (1186 / 1000) * (np_cos theta_i + np_cos theta_v)
                  + Num (5157 / 1000) * (np_cos theta_i * np_cos theta_v) + phase;
            rr = rr0 / (Num 4 * (np_cos theta_i + np_cos theta_v))
        in Inr rr)"

section \<open>Formulas and predicates of the specification\<close>

text \<open>
  The flat-terrain formulas of Kokhanovsky and Zege as the specification writes them, for
  one wavelength: \<open>alpha = 16/3 * cossalb / (1 - g)\<close>, the direct albedo
  \<open>exp(-sqrt(alpha) * 3/7 * (1 + 2 * cos(sza)))\<close> and the diffuse albedo \<open>exp(-sqrt(alpha))\<close>.
\<close>

definition alpha_of :: "npf \<Rightarrow> npf \<Rightarrow> npf" where
  "alpha_of g cossalb = Num (16 / 3) * cossalb / (Num 1 - g)"

definition direct_of :: "npf \<Rightarrow> npf \<Rightarrow> npf" where
  "direct_of cos_sza alpha = np_exp (- np_sqrt alpha * Num 3 / Num 7 * (Num 1 + Num 2 * cos_sza))"

definition diffuse_of :: "npf \<Rightarrow> npf" where
  "diffuse_of alpha = np_exp (- np_sqrt alpha)"

text \<open>
  The items of an impurity dictionary that the specification says are refused: a species
  outside the recognised names, a \<open>dust_<formulation>\<close> whose formulation the collaborator
  does not know, and \<open>hulis\<close>, \<open>dust\<close> or \<open>dust_skiles\<close> given without a density. The
  error each one is refused with.
\<close>

definition bad_species :: "collaborators \<Rightarrow> string \<times> impurity \<Rightarrow> bool" where
  "bad_species c item =
     (let species = fst item
      in if species \<in> set [''soot'', ''BC''] then False
         else if species \<in> set [''hulis'', ''dust'', ''dust_skiles'']
           then density_of (snd item) = None
         else if take 5 species = ''dust_'' then MAE_dust_caponi c (drop 5 species) = None
         else True)"

definition species_error :: "string \<Rightarrow> error" where
  "species_error species =
     (if species \<in> set [''hulis'', ''dust'', ''dust_skiles'']
      then ValueError (''No default density for the impurities '' @ [CHR 0x27] @ species @ [CHR 0x27])
      else ValueError ''Invalid species'')"

text \<open>The argument \<open>ni\<close> is a dataset name or an array that numpy can combine with the wavelengths.\<close>

definition ni_aligned :: "ni_arg \<Rightarrow> ndarray \<Rightarrow> bool" where
  "ni_aligned ni wavelengths =
     (case ni of Dataset name \<Rightarrow> True | Values a \<Rightarrow> broadcastable a wavelengths)"

text \<open>
  A stand-in for the refractive-index module, for the examples: ice that does not absorb,
  impurities of imaginary index 1, no dust formulation.
\<close>

definition example_collaborators :: collaborators where
  "example_collaborators =
     \<lparr> refice_imag = (\<lambda>name w. Num 0),
       refsoot_imag = (\<lambda>enhancement w. Num 1),
       refhulis_imag = (\<lambda>w. Num 1),
       refdust_imag = (\<lambda>formulation w. Num 1),
       MAE_dust_caponi = (\<lambda>formulation. None) \<rparr>"

section \<open>Quantities of the slope model, for the statements\<close>

text \<open>
  The local solar zenith angle passes the test at the head of \<open>albedo_P20_slope\<close>; the
  factors \<open>K = max(cos(lsza) / cos(sza), 0)\<close> and \<open>V = (1 + cos(slope)) / 2\<close>.
\<close>

definition lsza_valid :: "npf \<Rightarrow> bool" where
  "lsza_valid lsza = (\<not> (np_ge lsza (Num (pi / 2)) \<or> np_lt lsza (Num 0)))"

definition K_of :: "npf \<Rightarrow> npf \<Rightarrow> npf" where
  "K_of lsza sza = py_max (np_cos lsza / np_cos sza) (Num 0)"

definition V_of :: "npf \<Rightarrow> npf" where
  "V_of slope = (Num 1 + np_cos slope) / Num 2"

text \<open>A value that is not negative: a number at least zero, plus infinity, or NaN.\<close>

definition nonneg_or_nan :: "npf \<Rightarrow> bool" where
  "nonneg_or_nan x = (x = NaN \<or> np_ge x (Num 0))"

section \<open>Comparing two results wavelength by wavelength\<close>

text \<open>
  A value never decreases from \<open>old\<close> to \<open>new\<close> when \<open>new < old\<close> does not hold; two
  results compare when they raise the same error, or have the same shape and compare at
  every wavelength. An impurity of a given concentration, with or without a density. The
  term \<open>2 / SSA * concentration * MAC\<close> of one item of the dictionary. The collaborator
  \<open>MAE_dust_caponi\<close> has no negative value on the wavelengths; the density, when given, is
  positive.
\<close>

definition never_decreases :: "npf \<Rightarrow> npf \<Rightarrow> bool" where
  "never_decreases old new = (\<not> np_lt new old)"

fun nd_rel :: "(npf \<Rightarrow> npf \<Rightarrow> bool) \<Rightarrow> ndarray \<Rightarrow> ndarray \<Rightarrow> bool" where
  "nd_rel R (Scalar a) (Scalar b) = R a b"
| "nd_rel R (Array xs) (Array ys) = list_all2 R xs ys"
| "nd_rel R x y = False"

definition result_never_decreases :: "error + ndarray \<Rightarrow> error + ndarray \<Rightarrow> bool" where
  "result_never_decreases old new =
     (case old of
        Inl e \<Rightarrow> new = Inl e
      | Inr a \<Rightarrow> (case new of Inl e \<Rightarrow> False | Inr b \<Rightarrow> nd_rel never_decreases a b))"

definition impurity_of :: "npf \<Rightarrow> npf option \<Rightarrow> impurity" where
  "impurity_of content density =
     (case density of None \<Rightarrow> Bare content | Some d \<Rightarrow> WithDensity content d)"

definition impurity_term :: "collaborators \<Rightarrow> ndarray \<Rightarrow> npf \<Rightarrow> string \<times> impurity \<Rightarrow> ndarray" where
  "impurity_term c wavelengths ssa item =
     Scalar (Num 2 / ssa * content_of (snd item))
       * projr (species_MAC c wavelengths (fst item) (density_of (snd item)))"

definition dust_MAE_nonneg :: "collaborators \<Rightarrow> ndarray \<Rightarrow> string \<Rightarrow> bool" where
  "dust_MAE_nonneg c wavelengths species =
     (case MAE_dust_caponi c (drop 5 species) of
        None \<Rightarrow> True
      | Some mae \<Rightarrow> list_all (\<lambda>w. nonneg_or_nan (mae w)) (elements wavelengths))"

definition density_positive :: "npf option \<Rightarrow> bool" where
  "density_positive density = (case density of None \<Rightarrow> True | Some d \<Rightarrow> np_gt d (Num 0))"

section \<open>Arithmetic on finite numbers\<close>

lemma num_add [simp]: "Num a + Num b = Num (a + b)"
  by (simp add: plus_npf_def)

lemma num_sub [simp]: "Num a - Num b = Num (a - b)"
  by (simp add: minus_npf_def)

lemma num_neg [simp]: "- Num a = Num (- a)"
  by (simp add: uminus_npf_def)

lemma num_mul [simp]: "Num a * Num b = Num (a * b)"
  by (simp add: times_npf_def)

lemma num_div [simp]: "b \<noteq> 0 \<Longrightarrow> Num a / Num b = Num (a / b)"
  by (simp add: divide_npf_def)

section \<open>Nadir geometry on a flat surface\<close>

text \<open>
  C2. At nadir illumination and view on a horizontal surface (\<open>theta_i = theta_v = 0\<close>,
  \<open>slope = 0\<close>, any azimuths and aspect) \<open>local_viewing_angle\<close> returns the local zenith
  angles 0 and 0, but the spherical-law-of-cosines denominator is zero there and the
  code replaces the cosine of the relative azimuth by 0, so the relative azimuth it
  returns is \<open>arccos 0 = pi / 2\<close>, not 0.
\<close>

theorem local_viewing_angle_nadir_flat:
  "local_viewing_angle (Num 0) (Num phi_i) (Num 0) (Num phi_v) (Num 0) (Num aspect)
     = (Num 0, Num 0, Num (pi / 2))"
  by (simp add: local_viewing_angle_def Let_def np_where_def np_gt_def np_ne_def np_eq_def
      np_clip_def np_radians_def)

section \<open>Commutativity of the arithmetic\<close>

lemma np_add_commute: "(x::npf) + y = y + x"
  by (cases x; cases y) (simp_all add: plus_npf_def)

lemma np_mul_commute: "(x::npf) * y = y * x"
  by (cases x; cases y) (simp_all add: times_npf_def mult.commute)

lemma np_neg_mul_swap: "- (x::npf) * y = - y * x"
  by (cases x; cases y) (simp_all add: times_npf_def uminus_npf_def mult.commute)

section \<open>Reciprocity of the zero-order reflectance\<close>

text \<open>
  C10. \<open>brf0_KB12\<close> is unchanged when the illumination and the viewing zenith angles are
  exchanged, for every relative azimuth and every value of \<open>RAA_formalism\<close> (an invalid
  one raises the same error on both sides).
\<close>

theorem brf0_KB12_reciprocal:
  "brf0_KB12 theta_i theta_v phi RAA_formalism = brf0_KB12 theta_v theta_i phi RAA_formalism"
proof -
  have a: "np_cos theta_i + np_cos theta_v = np_cos theta_v + np_cos theta_i"
    by (rule np_add_commute)
  have m: "np_cos theta_i * np_cos theta_v = np_cos theta_v * np_cos theta_i"
    by (rule np_mul_commute)
  have s: "np_sin theta_i * np_sin theta_v = np_sin theta_v * np_sin theta_i"
    by (rule np_mul_commute)
  have n: "- np_cos theta_i * np_cos theta_v = - np_cos theta_v * np_cos theta_i"
    by (rule np_neg_mul_swap)
  show ?thesis
    unfolding brf0_KB12_def a m s n ..
qed

section \<open>Normalisation of the fitted slope and aspect\<close>

lemma fmod_bounds:
  assumes "0 < m"
  shows "- m < fmod x m" and "fmod x m < m"
proof -
  define q where "q = x / m"
  have x: "x = m * q" using assms by (simp add: q_def)
  have t: "- 1 < q - of_int (trunc_toward_zero q)" "q - of_int (trunc_toward_zero q) < 1"
    unfolding trunc_toward_zero_def by (auto; linarith)+
  have f: "fmod x m = m * (q - of_int (trunc_toward_zero q))"
    unfolding fmod_def q_def[symmetric] x by (simp add: algebra_simps)
  have "m * (- 1) < m * (q - of_int (trunc_toward_zero q))"
    using t(1) assms by (intro mult_strict_left_mono) simp_all
  then show "- m < fmod x m" unfolding f by simp
  have "m * (q - of_int (trunc_toward_zero q)) < m * 1"
    using t(2) assms by (intro mult_strict_left_mono) simp_all
  then show "fmod x m < m" unfolding f by simp
qed

lemma np_mod_range:
  assumes mono: "\<And>x y. x \<le> y \<Longrightarrow> rnd x \<le> rnd y"
    and zero: "rnd 0 = 0"
    and top: "rnd m = m"
    and m: "0 < m"
  shows "\<exists>a'. np_mod rnd (Num x) m = Num a' \<and> 0 \<le> a' \<and> a' \<le> m"
proof (cases "fmod x m < 0")
  case True
  have "0 \<le> fmod x m + m" "fmod x m + m \<le> m"
    using fmod_bounds(1)[OF m, of x] True by simp_all
  then have "rnd 0 \<le> rnd (fmod x m + m)" "rnd (fmod x m + m) \<le> rnd m"
    using mono by blast+
  then show ?thesis
    using True m by (simp add: Let_def zero top)
next
  case False
  then show ?thesis
    using fmod_bounds(2)[OF m, of x] m by (simp add: Let_def)
qed




section \<open>Arrays, element by element\<close>

named_theorems nd_pointwise

lemma nd_scalar_right [nd_pointwise]: "nd_bcast f x (Scalar b) = nd_map (\<lambda>a. f a b) x"
  by (cases x) simp_all

lemma nd_scalar_left [nd_pointwise]: "nd_bcast f (Scalar a) y = nd_map (f a) y"
  by (cases y) simp_all

lemma nd_map_map [nd_pointwise]: "nd_map f (nd_map g x) = nd_map (\<lambda>a. f (g a)) x"
  by (cases x) simp_all

lemma nd_bcast_same [nd_pointwise]:
  "nd_bcast f (nd_map g x) (nd_map h x) = nd_map (\<lambda>a. f (g a) (h a)) x"
  by (cases x) (simp_all add: map2_map_map)

lemma nd_bcast_same_left [nd_pointwise]:
  "nd_bcast f x (nd_map h x) = nd_map (\<lambda>a. f a (h a)) x"
  using nd_bcast_same[of f "\<lambda>a. a" x h] by (cases x) simp_all

lemma nd_bcast_same_right [nd_pointwise]:
  "nd_bcast f (nd_map g x) x = nd_map (\<lambda>a. f (g a) a) x"
  using nd_bcast_same[of f g x "\<lambda>a. a"] by (cases x) simp_all

lemmas nd_ops = plus_ndarray_def minus_ndarray_def times_ndarray_def divide_ndarray_def
  uminus_ndarray_def

section \<open>The flat-terrain formulas of Kokhanovsky and Zege\<close>

text \<open>
  C4. Whatever the arguments: when \<open>compute_co_single_scattering_albedo\<close> raises, the
  three albedo functions raise the same error; when it returns \<open>cossalb\<close>, then with
  \<open>alpha = 16/3 * cossalb / (1 - g)\<close> at each wavelength, \<open>albedo_diffuse_KZ04\<close> returns
  \<open>exp(-sqrt(alpha))\<close>; when moreover \<open>cos(sza) >= 0\<close>, \<open>albedo_direct_KZ04\<close> returns
  \<open>exp(-sqrt(alpha) * 3/7 * (1 + 2 * cos(sza)))\<close> and \<open>albedo_KZ04\<close> returns
  \<open>(1 - r_difftot) * direct + r_difftot * diffuse\<close>; when \<open>cos(sza) >= 0\<close> does not hold,
  \<open>albedo_direct_KZ04\<close> and \<open>albedo_KZ04\<close> raise AssertionError.
\<close>

theorem albedo_KZ04_formulas:
  "(case compute_co_single_scattering_albedo c wavelengths ssa impurities ni B g of
      Inl e \<Rightarrow>
        albedo_direct_KZ04 c wavelengths sza ssa impurities ni B g = Inl e
        \<and> albedo_diffuse_KZ04 c wavelengths ssa impurities ni B g = Inl e
        \<and> albedo_KZ04 c wavelengths sza ssa r_difftot impurities ni B g = Inl e
    | Inr cossalb \<Rightarrow>
        albedo_diffuse_KZ04 c wavelengths ssa impurities ni B g
          = Inr (nd_map (\<lambda>x. diffuse_of (alpha_of g x)) cossalb)
        \<and> (if np_ge (np_cos sza) (Num 0)
           then albedo_direct_KZ04 c wavelengths sza ssa impurities ni B g
                  = Inr (nd_map (\<lambda>x. direct_of (np_cos sza) (alpha_of g x)) cossalb)
                \<and> albedo_KZ04 c wavelengths sza ssa r_difftot impurities ni B g
                  = Inr (nd_map (\<lambda>x. (Num 1 - r_difftot) * direct_of (np_cos sza) (alpha_of g x)
                                      + r_difftot * diffuse_of (alpha_of g x)) cossalb)
           else albedo_direct_KZ04 c wavelengths sza ssa impurities ni B g = Inl AssertionError
                \<and> albedo_KZ04 c wavelengths sza ssa r_difftot impurities ni B g
                    = Inl AssertionError))"
  by (simp add: albedo_KZ04_def albedo_direct_KZ04_def albedo_diffuse_KZ04_def compute_alpha_def
      Let_def nd_ops nd_pointwise alpha_of_def direct_of_def diffuse_of_def split: sum.split)

section \<open>Errors raised for the impurities\<close>

lemma species_MAC_bad:
  "bad_species c (s, v) \<Longrightarrow> species_MAC c wl s (density_of v) = Inl (species_error s)"
  unfolding bad_species_def species_MAC_def mac_from_index_def species_error_def Let_def
    fst_conv snd_conv
  by (simp split: if_splits option.splits)

lemma species_MAC_good:
  assumes "\<not> bad_species c (s, v)"
  shows "\<exists>m. species_MAC c wl s (density_of v) = Inr m"
proof -
  consider (soot) "s \<in> set [''soot'', ''BC'']"
    | (index) "s \<notin> set [''soot'', ''BC'']" "s \<in> set [''hulis'', ''dust'', ''dust_skiles'']"
    | (caponi) "s \<notin> set [''soot'', ''BC'']" "s \<notin> set [''hulis'', ''dust'', ''dust_skiles'']"
    by blast
  then show ?thesis
  proof cases
    case soot
    then show ?thesis
      by (simp add: species_MAC_def mac_from_index_def split: option.splits)
  next
    case index
    with assms obtain d where d: "density_of v = Some d"
      by (auto simp add: bad_species_def)
    from index show ?thesis
      unfolding species_MAC_def mac_from_index_def d by auto
  next
    case caponi
    with assms have "take 5 s = ''dust_''" "MAE_dust_caponi c (drop 5 s) \<noteq> None"
      by (auto simp add: bad_species_def split: if_splits)
    with caponi show ?thesis
      unfolding species_MAC_def by auto
  qed
qed

lemma add_impurities_ok:
  "find (bad_species c) imps = None \<Longrightarrow> \<exists>r. add_impurities c wl ssa cossalb imps = Inr r"
proof (induction imps arbitrary: cossalb)
  case Nil
  show ?case by simp
next
  case (Cons item imps)
  obtain s v where item: "item = (s, v)" by (cases item)
  from Cons.prems have good: "\<not> bad_species c (s, v)" and rest: "find (bad_species c) imps = None"
    by (simp_all add: item split: if_splits)
  obtain m where m: "species_MAC c wl s (density_of v) = Inr m"
    using species_MAC_good[OF good] by blast
  show ?case
    using Cons.IH[OF rest, of "cossalb + Scalar (Num 2 / ssa * content_of v) * m"]
    by (simp add: item m)
qed

lemma add_impurities_err:
  "find (bad_species c) imps = Some item
   \<Longrightarrow> add_impurities c wl ssa cossalb imps = Inl (species_error (fst item))"
proof (induction imps arbitrary: cossalb)
  case Nil
  then show ?case by simp
next
  case (Cons first imps)
  obtain s v where first: "first = (s, v)" by (cases first)
  show ?case
  proof (cases "bad_species c (s, v)")
    case True
    with Cons.prems have "item = (s, v)" by (simp add: first)
    then show ?thesis
      using species_MAC_bad[OF True, of wl] by (simp add: first)
  next
    case False
    with Cons.prems have rest: "find (bad_species c) imps = Some item" by (simp add: first)
    obtain m where m: "species_MAC c wl s (density_of v) = Inr m"
      using species_MAC_good[OF False] by blast
    show ?thesis
      using Cons.IH[OF rest, of "cossalb + Scalar (Num 2 / ssa * content_of v) * m"]
      by (simp add: first m)
  qed
qed

lemma nd_map_broadcastable: "broadcastable (nd_map f wl) wl"
  by (cases wl) simp_all

lemma ssa_rho_ice_zero: "np_eq (ssa * Num 917) (Num 0) \<longleftrightarrow> ssa = Num 0"
  by (cases ssa) (simp_all add: np_eq_def times_npf_def inf_signed_def)

lemma cossalb_with_impurities:
  assumes "ni_aligned ni wavelengths" and "ssa \<noteq> Num 0"
  shows "\<exists>cossalb. compute_co_single_scattering_albedo c wavelengths ssa (Some imps) ni B g
           = add_impurities c wavelengths ssa cossalb imps
         \<and> compute_co_single_scattering_albedo c wavelengths ssa None ni B g = Inr cossalb"
proof -
  have b: "broadcastable (case ni of Dataset n \<Rightarrow> nd_map (refice_imag c n) wavelengths
                                   | Values a \<Rightarrow> a) wavelengths"
    using assms(1) by (cases ni) (simp_all add: ni_aligned_def nd_map_broadcastable)
  show ?thesis
    using assms(2)
    by (simp add: compute_co_single_scattering_albedo_def Let_def b ssa_rho_ice_zero)
qed




section \<open>The slope model once the local zenith angle is valid\<close>

declare albedo_P20_slope.simps [simp del]

lemma P20_valid:
  assumes "lsza_valid (local_sza sza saa slope aspect)"
  shows "albedo_P20_slope c wavelengths sza saa ssa r_difftot slope aspect model measured_difftot
           fixed_flat_albedo impurities ni B g =
     (case flat_albedos c wavelengths sza (local_sza sza saa slope aspect) ssa fixed_flat_albedo
             impurities ni B g of
        Inl e \<Rightarrow> Inl e
      | Inr (alb_loc_dir, alb_dir, alb_diff) \<Rightarrow>
          if \<not> measured_difftot \<and> model \<in> set [''DM'', ''SM''] then
            (case albedo_P20_slope c wavelengths sza saa ssa r_difftot slope aspect
                    (butlast model @ ''T'') False fixed_flat_albedo impurities ni B g of
               Inl e \<Rightarrow> Inl e
             | Inr albedo_top \<Rightarrow>
                 P20_middle model (K_of (local_sza sza saa slope aspect) sza) (V_of slope)
                   (Scalar (Num 1 - V_of slope) * alb_diff) r_difftot albedo_top
                   alb_loc_dir alb_dir alb_diff)
          else
            (case P20_components model (K_of (local_sza sza saa slope aspect) sza) (V_of slope)
                    (Scalar (Num 1 - V_of slope) * alb_diff) alb_loc_dir alb_dir alb_diff of
               Inl e \<Rightarrow> Inl e
             | Inr (Adir, Adiff) \<Rightarrow> Inr (P20_mix r_difftot Adir Adiff)))"
  using assms
  by (subst albedo_P20_slope.simps)
     (simp add: lsza_valid_def Let_def K_of_def V_of_def split: sum.split prod.split)

lemma flat_albedos_fixed:
  "truthy fixed_flat_albedo \<Longrightarrow>
   flat_albedos c wavelengths sza lsza ssa fixed_flat_albedo impurities ni B g
     = Inr (Scalar (the fixed_flat_albedo), Scalar (the fixed_flat_albedo),
            Scalar (the fixed_flat_albedo))"
  by (simp add: flat_albedos_def)

section \<open>Self-shadow in the models DM and SM\<close>

lemma K_zero_cos_negative:
  assumes "lsza_valid lsza" and "np_eq (K_of lsza sza) (Num 0)"
  shows "\<not> np_ge (np_cos sza) (Num 0)"
proof (cases lsza)
  case (Num l)
  with assms(1) have l: "0 \<le> l" "l < pi / 2"
    by (auto simp add: lsza_valid_def np_ge_def np_le_def np_eq_def)
  have c: "0 < cos l" using l by (intro cos_gt_zero_pi) auto
  show ?thesis
  proof (cases sza)
    case s: (Num s)
    show ?thesis
      using assms(2) c unfolding K_of_def Num s
      by (auto simp add: py_max_def np_gt_def np_ge_def np_le_def np_eq_def divide_npf_def
          inf_signed_def divide_less_0_iff split: if_splits)
  qed (use assms(2) in \<open>simp_all add: K_of_def Num py_max_def np_gt_def np_eq_def divide_npf_def\<close>)
next
  case PInf
  with assms(1) show ?thesis by (simp add: lsza_valid_def np_ge_def np_le_def)
next
  case NInf
  with assms(1) show ?thesis by (simp add: lsza_valid_def)
next
  case NaN
  with assms(2) show ?thesis
    by (simp add: K_of_def py_max_def np_gt_def np_eq_def divide_npf_def)
qed

lemma P20_self_shadow_measured:
  assumes "model \<in> set [''DM'', ''SM'']"
    and "lsza_valid (local_sza sza saa slope aspect)"
    and "np_eq (K_of (local_sza sza saa slope aspect) sza) (Num 0)"
  shows "albedo_P20_slope c wavelengths sza saa ssa r_difftot slope aspect model True
           fixed_flat_albedo impurities ni B g
         = (case flat_albedos c wavelengths sza (local_sza sza saa slope aspect) ssa
                   fixed_flat_albedo impurities ni B g of
              Inl e \<Rightarrow> Inl e
            | Inr albedos \<Rightarrow> Inl (NotImplementedError ''Incorrect in the self-shadow''))"
  using assms(1,3)
  by (auto simp add: P20_valid[OF assms(2)] P20_components_def split: sum.splits prod.splits)

lemma flat_albedos_error:
  assumes "\<not> truthy fixed_flat_albedo" and "\<not> np_ge (np_cos sza) (Num 0)"
  shows "isl (flat_albedos c wavelengths sza lsza ssa fixed_flat_albedo impurities ni B g)"
  using assms
  by (auto simp add: flat_albedos_def albedo_direct_KZ04_def Let_def split: sum.splits)

lemma P20_self_shadow_no_fixed:
  assumes "lsza_valid (local_sza sza saa slope aspect)"
    and "np_eq (K_of (local_sza sza saa slope aspect) sza) (Num 0)"
    and "\<not> truthy fixed_flat_albedo"
  shows "isl (albedo_P20_slope c wavelengths sza saa ssa r_difftot slope aspect model measured
                fixed_flat_albedo impurities ni B g)"
proof -
  have "isl (flat_albedos c wavelengths sza (local_sza sza saa slope aspect) ssa fixed_flat_albedo
               impurities ni B g)"
    using flat_albedos_error[OF assms(3) K_zero_cos_negative[OF assms(1,2)]] .
  then show ?thesis
    by (auto simp add: P20_valid[OF assms(1)] split: sum.splits)
qed

lemma top_model: "model \<in> set [''DM'', ''SM''] \<Longrightarrow> butlast model @ ''T'' \<in> set [''DT'', ''ST'']"
  by auto

lemma P20_top_fixed:
  assumes "model_top \<in> set [''DT'', ''ST'']"
    and "lsza_valid (local_sza sza saa slope aspect)"
    and "truthy fixed_flat_albedo"
  shows "\<exists>v. albedo_P20_slope c wavelengths sza saa ssa r_difftot slope aspect model_top False
                fixed_flat_albedo impurities ni B g = Inr v"
  using assms(1)
  by (auto simp add: P20_valid[OF assms(2)] flat_albedos_fixed[OF assms(3)] P20_components_def)

lemma P20_self_shadow_unmeasured_fixed:
  assumes "model \<in> set [''DM'', ''SM'']"
    and "lsza_valid (local_sza sza saa slope aspect)"
    and "np_eq (K_of (local_sza sza saa slope aspect) sza) (Num 0)"
    and "truthy fixed_flat_albedo"
  shows "albedo_P20_slope c wavelengths sza saa ssa r_difftot slope aspect model False
           fixed_flat_albedo impurities ni B g
         = Inr (if \<not> np_gt r_difftot (Num 0) then Scalar NaN
                else if model = ''DM''
                  then Scalar (V_of slope * the fixed_flat_albedo
                               / (Num 1 + (Num 1 - V_of slope) * the fixed_flat_albedo))
                else Scalar (the fixed_flat_albedo))"
proof -
  obtain v where v: "albedo_P20_slope c wavelengths sza saa ssa r_difftot slope aspect
      (butlast model @ ''T'') False fixed_flat_albedo impurities ni B g = Inr v"
    using P20_top_fixed[OF top_model[OF assms(1)] assms(2,4)] by blast
  have k: "\<not> np_gt (K_of (local_sza sza saa slope aspect) sza) (Num 0)"
    using assms(3) by (cases "K_of (local_sza sza saa slope aspect) sza")
      (auto simp add: np_eq_def np_gt_def)
  show ?thesis
    apply (subst P20_valid[OF assms(2)])
    using assms(1) k
    by (auto simp add: flat_albedos_fixed[OF assms(4)] v P20_middle_def nd_ops)
qed

text \<open>A sun 30 degrees below the horizon facing a vertical wall: \<open>sza = 2 * pi / 3\<close>, \<open>slope = pi / 2\<close>.\<close>

lemma sin_120_deg: "sin (2 * pi / 3) = sqrt 3 / 2"
  using sin_120' by (simp add: mult.commute)

lemma arccos_sqrt3_2: "arccos (sqrt 3 / 2) = pi / 6"
  using arccos_cos[of "pi / 6"] by (simp add: cos_30)

lemma example_lsza: "local_sza (Num (2 * pi / 3)) (Num 0) (Num (pi / 2)) (Num 0) = Num (pi / 6)"
proof -
  have "sqrt 3 / 2 \<le> 1" by (simp add: real_le_lsqrt)
  moreover have "- 1 \<le> sqrt 3 / 2"
    using real_sqrt_ge_zero[of 3] by linarith
  ultimately show ?thesis
    by (simp add: local_sza_def sin_120_deg arccos_sqrt3_2)
qed

lemma example_K: "K_of (Num (pi / 6)) (Num (2 * pi / 3)) = Num 0"
  by (simp add: K_of_def cos_30 cos_120 py_max_def np_gt_def)

lemma example_V: "V_of (Num (pi / 2)) = Num (1 / 2)"
  by (simp add: V_of_def)

lemma example_valid: "lsza_valid (Num (pi / 6))"
  by (simp add: lsza_valid_def np_ge_def np_le_def np_eq_def)

text \<open>
  C8, as the code has it. For the models \<open>DM\<close> and \<open>SM\<close>, when the local solar zenith
  angle is valid and \<open>K == 0\<close>: with \<open>measured_difftot=True\<close> the call raises, the error of
  the flat albedos when they raise, NotImplementedError otherwise. With
  \<open>measured_difftot=False\<close> it raises when no \<open>fixed_flat_albedo\<close> is in force (the
  assertion on \<open>cos(sza)\<close> fails, unless an earlier error is raised), and with a
  \<open>fixed_flat_albedo\<close> it raises nothing: it returns NaN when \<open>r_difftot > 0\<close> does not
  hold, else \<open>V * alb_diff / (1 + M)\<close> for \<open>DM\<close> and \<open>alb_diff\<close> for \<open>SM\<close>.
\<close>

theorem P20_self_shadow:
  assumes "model \<in> set [''DM'', ''SM'']"
    and "lsza_valid (local_sza sza saa slope aspect)"
    and "np_eq (K_of (local_sza sza saa slope aspect) sza) (Num 0)"
  shows "albedo_P20_slope c wavelengths sza saa ssa r_difftot slope aspect model True
           fixed_flat_albedo impurities ni B g
         = (case flat_albedos c wavelengths sza (local_sza sza saa slope aspect) ssa
                   fixed_flat_albedo impurities ni B g of
              Inl e \<Rightarrow> Inl e
            | Inr albedos \<Rightarrow> Inl (NotImplementedError ''Incorrect in the self-shadow''))
       \<and> isl (albedo_P20_slope c wavelengths sza saa ssa r_difftot slope aspect model True
                fixed_flat_albedo impurities ni B g)
       \<and> (if truthy fixed_flat_albedo
          then albedo_P20_slope c wavelengths sza saa ssa r_difftot slope aspect model False
                 fixed_flat_albedo impurities ni B g
               = Inr (if \<not> np_gt r_difftot (Num 0) then Scalar NaN
                      else if model = ''DM''
                        then Scalar (V_of slope * the fixed_flat_albedo
                                     / (Num 1 + (Num 1 - V_of slope) * the fixed_flat_albedo))
                      else Scalar (the fixed_flat_albedo))
          else isl (albedo_P20_slope c wavelengths sza saa ssa r_difftot slope aspect model False
                      fixed_flat_albedo impurities ni B g))"
proof -
  note m = P20_self_shadow_measured[OF assms, of c wavelengths ssa r_difftot fixed_flat_albedo
      impurities ni B g]
  have "isl (albedo_P20_slope c wavelengths sza saa ssa r_difftot slope aspect model True
                fixed_flat_albedo impurities ni B g)"
    unfolding m by (simp split: sum.split)
  with m show ?thesis
    using P20_self_shadow_unmeasured_fixed[OF assms] P20_self_shadow_no_fixed[OF assms(2,3)]
    by simp
qed

theorem P20_self_shadow_witness:
  "albedo_P20_slope example_collaborators (Array [Num 1]) (Num (2 * pi / 3)) (Num 0) (Num 20)
     (Num (1 / 2)) (Num (pi / 2)) (Num 0) ''DM'' True (Some (Num (9 / 10))) None
     (Dataset ''p2016'') default_B default_g
   = Inl (NotImplementedError ''Incorrect in the self-shadow'')"
proof -
  have v: "lsza_valid (local_sza (Num (2 * pi / 3)) (Num 0) (Num (pi / 2)) (Num 0))"
    by (simp add: example_lsza example_valid)
  have k: "np_eq (K_of (local_sza (Num (2 * pi / 3)) (Num 0) (Num (pi / 2)) (Num 0))
                   (Num (2 * pi / 3))) (Num 0)"
    by (simp add: example_lsza example_K np_eq_def)
  have m: "''DM'' \<in> set [''DM'', ''SM'']" by simp
  have t: "truthy (Some (Num (9 / 10)))" by simp
  show ?thesis
    using P20_self_shadow[OF m v k, of example_collaborators "Array [Num 1]" "Num 20"
        "Num (1 / 2)" "Some (Num (9 / 10))" None "Dataset ''p2016''" default_B default_g]
    by (simp add: flat_albedos_fixed[OF t])
qed

text \<open>
  The claim as worded fails with the default \<open>measured_difftot=False\<close>: the sun below the
  horizon in front of a vertical wall and a fixed flat albedo 0.9 give a valid local
  zenith angle \<open>pi / 6\<close> and \<open>K == 0\<close>, and the model \<open>DM\<close> returns the number 9/29.
\<close>

theorem P20_self_shadow_returns:
  "lsza_valid (local_sza (Num (2 * pi / 3)) (Num 0) (Num (pi / 2)) (Num 0))
   \<and> np_eq (K_of (local_sza (Num (2 * pi / 3)) (Num 0) (Num (pi / 2)) (Num 0)) (Num (2 * pi / 3)))
        (Num 0)
   \<and> albedo_P20_slope example_collaborators (Array [Num 1]) (Num (2 * pi / 3)) (Num 0) (Num 20)
       (Num (1 / 2)) (Num (pi / 2)) (Num 0) ''DM'' False (Some (Num (9 / 10))) None
       (Dataset ''p2016'') default_B default_g
     = Inr (Scalar (Num (9 / 29)))"
proof -
  have v: "lsza_valid (local_sza (Num (2 * pi / 3)) (Num 0) (Num (pi / 2)) (Num 0))"
    by (simp add: example_lsza example_valid)
  have k: "np_eq (K_of (local_sza (Num (2 * pi / 3)) (Num 0) (Num (pi / 2)) (Num 0))
                   (Num (2 * pi / 3))) (Num 0)"
    by (simp add: example_lsza example_K np_eq_def)
  have m: "''DM'' \<in> set [''DM'', ''SM'']" by simp
  have t: "truthy (Some (Num (9 / 10)))" by simp
  show ?thesis
    using v k P20_self_shadow_unmeasured_fixed[OF m v k t, of example_collaborators
        "Array [Num 1]" "Num 20" "Num (1 / 2)" None "Dataset ''p2016''" default_B default_g]
    by (simp add: example_V np_gt_def)
qed

section \<open>The flat model of the slope function\<close>

lemma elements_nd_map: "elements (nd_map f x) = map f (elements x)"
  by (cases x) simp_all

lemma np_exp_cases: "(\<exists>e. 0 \<le> e \<and> np_exp u = Num e) \<or> np_exp u = PInf \<or> np_exp u = NaN"
  by (cases u) simp_all

lemma unit_interval:
  assumes "np_ge r (Num 0)" and "np_le r (Num 1)"
  shows "\<exists>\<rho>. r = Num \<rho> \<and> 0 \<le> \<rho> \<and> \<rho> \<le> 1"
  using assms by (cases r) (auto simp add: np_ge_def np_le_def np_eq_def)

lemma mix_nonneg:
  assumes "0 \<le> \<rho>" and "\<rho> \<le> 1"
  shows "nonneg_or_nan ((Num 1 - Num \<rho>) * np_exp u + Num \<rho> * np_exp v)"
proof -
  consider (n) e where "0 \<le> e" "np_exp u = Num e" | (p) "np_exp u = PInf" | (x) "np_exp u = NaN"
    using np_exp_cases[of u] by blast
  then show ?thesis
  proof cases
    case n
    consider (n2) f where "0 \<le> f" "np_exp v = Num f" | (p2) "np_exp v = PInf" | (x2) "np_exp v = NaN"
      using np_exp_cases[of v] by blast
    then show ?thesis
    proof cases
      case n2
      have "0 \<le> (1 - \<rho>) * e + \<rho> * f"
        using n(1) n2(1) assms by (intro add_nonneg_nonneg mult_nonneg_nonneg) auto
      then show ?thesis using n n2
        by (auto simp add: nonneg_or_nan_def np_ge_def np_le_def np_eq_def)
    next
      case p2
      then show ?thesis using n assms
        by (auto simp add: nonneg_or_nan_def np_ge_def np_le_def np_eq_def times_npf_def
            plus_npf_def inf_signed_def sgn_if)
    next
      case x2
      then show ?thesis using n
        by (simp add: nonneg_or_nan_def times_npf_def plus_npf_def)
    qed
  next
    case p
    consider (n2) f where "0 \<le> f" "np_exp v = Num f" | (p2) "np_exp v = PInf" | (x2) "np_exp v = NaN"
      using np_exp_cases[of v] by blast
    then show ?thesis
    proof cases
      case n2
      then show ?thesis using p assms
        by (auto simp add: nonneg_or_nan_def np_ge_def np_le_def np_eq_def times_npf_def
            plus_npf_def inf_signed_def sgn_if)
    next
      case p2
      then show ?thesis using p assms
        by (auto simp add: nonneg_or_nan_def np_ge_def np_le_def np_eq_def times_npf_def
            plus_npf_def inf_signed_def sgn_if)
    next
      case x2
      then show ?thesis using p
        by (simp add: nonneg_or_nan_def times_npf_def plus_npf_def inf_signed_def sgn_if)
    qed
  next
    case x
    then show ?thesis
      by (simp add: nonneg_or_nan_def times_npf_def plus_npf_def)
  qed
qed

lemma P20_mix_id:
  assumes "list_all nonneg_or_nan (elements (Scalar (Num 1 - r) * A + Scalar r * D))"
  shows "P20_mix r A D = Scalar (Num 1 - r) * A + Scalar r * D"
proof (cases "Scalar (Num 1 - r) * A + Scalar r * D")
  case (Scalar a)
  with assms have "nonneg_or_nan a" by simp
  then have "\<not> np_lt a (Num 0)"
    by (cases a) (auto simp add: nonneg_or_nan_def np_ge_def np_le_def np_eq_def)
  then show ?thesis by (simp add: P20_mix_def Scalar)
next
  case (Array xs)
  with assms have "list_all nonneg_or_nan xs" by simp
  then have "map (\<lambda>a. np_where (np_ge a (Num 0)) a NaN) xs = xs"
    by (intro map_idI) (auto simp add: list_all_iff nonneg_or_nan_def np_where_def np_ge_def
        np_le_def np_eq_def)
  then show ?thesis by (simp add: P20_mix_def Array)
qed

lemma lsza_in_range:
  assumes "np_ge lsza (Num 0)" and "np_lt lsza (Num (pi / 2))"
  shows "lsza_valid lsza" and "np_ge (np_cos lsza) (Num 0)"
proof -
  obtain l where l: "lsza = Num l" "0 \<le> l" "l < pi / 2"
    using assms by (cases lsza) (auto simp add: np_ge_def np_le_def np_eq_def)
  show "lsza_valid lsza"
    using l by (auto simp add: lsza_valid_def np_ge_def np_le_def np_eq_def)
  have "0 < cos l" using l by (intro cos_gt_zero_pi) auto
  then show "np_ge (np_cos lsza) (Num 0)"
    using l by (simp add: np_ge_def np_le_def)
qed

lemma P20_flat_general:
  assumes "np_ge (local_sza sza saa slope aspect) (Num 0)"
    and "np_lt (local_sza sza saa slope aspect) (Num (pi / 2))"
    and "\<not> truthy fixed_flat_albedo"
  shows "albedo_P20_slope c wavelengths sza saa ssa r_difftot slope aspect ''flat'' measured
           fixed_flat_albedo impurities ni B g
         = (case albedo_direct_KZ04 c wavelengths sza ssa impurities ni B g of
              Inl e \<Rightarrow> Inl e
            | Inr direct \<Rightarrow>
                (case albedo_diffuse_KZ04 c wavelengths ssa impurities ni B g of
                   Inl e \<Rightarrow> Inl e
                 | Inr diffuse \<Rightarrow> Inr (P20_mix r_difftot direct diffuse)))"
  using assms(3) lsza_in_range(2)[OF assms(1,2)]
  by (simp add: P20_valid[OF lsza_in_range(1)[OF assms(1,2)]] flat_albedos_def
      P20_components_def albedo_direct_KZ04_def albedo_diffuse_KZ04_def Let_def
      split: sum.split)

lemma KZ04_mix_nonneg:
  assumes "np_ge r_difftot (Num 0)" and "np_le r_difftot (Num 1)"
    and "albedo_direct_KZ04 c wavelengths sza ssa impurities ni B g = Inr direct"
    and "albedo_diffuse_KZ04 c wavelengths ssa impurities ni B g = Inr diffuse"
  shows "list_all nonneg_or_nan
           (elements (Scalar (Num 1 - r_difftot) * direct + Scalar r_difftot * diffuse))"
proof -
  obtain \<rho> where r: "r_difftot = Num \<rho>" "0 \<le> \<rho>" "\<rho> \<le> 1"
    using unit_interval[OF assms(1,2)] by blast
  obtain alpha where a: "compute_alpha c wavelengths ssa impurities ni B g = Inr alpha"
    using assms(4) by (auto simp add: albedo_diffuse_KZ04_def split: sum.splits)
  have d: "direct = nd_map (\<lambda>x. np_exp (- np_sqrt x * Num 3 / Num 7 * (Num 1 + Num 2 * np_cos sza))) alpha"
    using assms(3) a
    by (auto simp add: albedo_direct_KZ04_def Let_def nd_ops nd_pointwise split: if_splits)
  have f: "diffuse = nd_map (\<lambda>x. np_exp (- np_sqrt x)) alpha"
    using assms(4) a by (auto simp add: albedo_diffuse_KZ04_def nd_ops nd_pointwise)
  show ?thesis
    unfolding d f r
    by (simp add: nd_ops nd_pointwise elements_nd_map list_all_iff mix_nonneg[OF r(2,3)]
        del: num_sub)
qed

lemma sqrt3_sq: "sqrt 3 * sqrt 3 = (3::real)"
  by simp

lemma arccos_half: "arccos (1 / 2) = pi / 3"
  using arccos_cos[of "pi / 3"] by (simp add: cos_60)

lemma arccos_minus_half: "arccos (- (1 / 2)) = 2 * pi / 3"
  using arccos_minus[of "1 / 2"] by (simp add: arccos_half)

lemma example_lsza_facing: "local_sza (Num (pi / 3)) (Num 0) (Num (pi / 3)) (Num 0) = Num 0"
  by (simp add: local_sza_def cos_60 sin_60)

lemma example_lsza_away:
  "local_sza (Num (pi / 3)) (Num 0) (Num (pi / 3)) (Num pi) = Num (2 * pi / 3)"
  by (simp add: local_sza_def cos_60 sin_60 arccos_minus_half)

lemma example_KZ04:
  "albedo_KZ04 example_collaborators (Array [Num 1]) (Num (pi / 3)) (Num 20) (Num (1 / 2)) None
     (Dataset ''p2016'') default_B default_g = Inr (Array [Num 1])"
  by (simp add: albedo_KZ04_def albedo_direct_KZ04_def albedo_diffuse_KZ04_def compute_alpha_def
      compute_co_single_scattering_albedo_def example_collaborators_def default_B_def
      default_g_def Let_def nd_ops np_eq_def np_ge_def np_le_def cos_60)






section \<open>Impurities: additive accumulation and monotonicity\<close>

lemma never_decreases_refl: "never_decreases a a"
  by (cases a) (simp_all add: never_decreases_def)

lemma never_decreases_add_right:
  "never_decreases a b \<Longrightarrow> never_decreases (a + t) (b + t)"
  by (cases a; cases b; cases t) (simp_all add: never_decreases_def plus_npf_def)

lemma never_decreases_add_left:
  "never_decreases a b \<Longrightarrow> never_decreases (t + a) (t + b)"
  by (cases a; cases b; cases t) (simp_all add: never_decreases_def plus_npf_def)

lemma never_decreases_mul_right:
  "never_decreases a b \<Longrightarrow> nonneg_or_nan m \<Longrightarrow> never_decreases (a * m) (b * m)"
  by (cases a; cases b; cases m)
     (auto simp add: never_decreases_def times_npf_def nonneg_or_nan_def np_ge_def np_le_def
        np_eq_def inf_signed_def sgn_if not_less mult_right_mono)

lemma never_decreases_mul_left:
  "never_decreases a b \<Longrightarrow> nonneg_or_nan m \<Longrightarrow> never_decreases (m * a) (m * b)"
  by (cases a; cases b; cases m)
     (auto simp add: never_decreases_def times_npf_def nonneg_or_nan_def np_ge_def np_le_def
        np_eq_def inf_signed_def sgn_if not_less mult_left_mono)


lemma nd_rel_refl: "(\<And>a. R a a) \<Longrightarrow> nd_rel R x x"
  by (cases x) (simp_all add: list_all2_same)

lemma nd_rel_map:
  "(\<And>a. a \<in> set (elements x) \<Longrightarrow> R (f a) (h a)) \<Longrightarrow> nd_rel R (nd_map f x) (nd_map h x)"
  by (cases x) (simp_all add: list_all2_map1 list_all2_map2 list_all2_same)

lemma nd_rel_bcast_right:
  assumes "nd_rel R s t" and "\<And>a u v. R u v \<Longrightarrow> R (f a u) (f a v)"
  shows "nd_rel R (nd_bcast f x s) (nd_bcast f x t)"
proof (cases s)
  case s: (Scalar u)
  then obtain v where t: "t = Scalar v" and uv: "R u v"
    using assms(1) by (cases t) simp_all
  show ?thesis
    using assms(2)[OF uv]
    by (cases x) (simp_all add: s t list_all2_map1 list_all2_map2 list_all2_same)
next
  case s: (Array us)
  then obtain vs where t: "t = Array vs" and uv: "list_all2 R us vs"
    using assms(1) by (cases t) simp_all
  have len: "length us = length vs" using uv by (rule list_all2_lengthD)
  show ?thesis
  proof (cases x)
    case (Scalar a)
    show ?thesis
      using uv assms(2)
      by (simp add: s t Scalar list_all2_map1 list_all2_map2 list_all2_mono)
  next
    case (Array xs)
    have one: "length us = 1 \<Longrightarrow> R (hd us) (hd vs)"
      using uv by (cases us; cases vs) simp_all
    have zip: "length xs = length us \<Longrightarrow> list_all2 R (map2 f xs us) (map2 f xs vs)"
      using uv assms(2) len
      by (auto simp add: list_all2_conv_all_nth)
    show ?thesis
      using uv assms(2) len one zip
      by (auto simp add: s t Array list_all2_map1 list_all2_map2 list_all2_same
          list_all2_mono)
  qed
qed

lemma nd_rel_bcast_left:
  assumes "nd_rel R s t" and "\<And>a u v. R u v \<Longrightarrow> R (f u a) (f v a)"
  shows "nd_rel R (nd_bcast f s x) (nd_bcast f t x)"
proof (cases s)
  case s: (Scalar u)
  then obtain v where t: "t = Scalar v" and uv: "R u v"
    using assms(1) by (cases t) simp_all
  show ?thesis
    using assms(2)[OF uv]
    by (cases x) (simp_all add: s t list_all2_map1 list_all2_map2 list_all2_same)
next
  case s: (Array us)
  then obtain vs where t: "t = Array vs" and uv: "list_all2 R us vs"
    using assms(1) by (cases t) simp_all
  have len: "length us = length vs" using uv by (rule list_all2_lengthD)
  show ?thesis
  proof (cases x)
    case (Scalar a)
    show ?thesis
      using uv assms(2)
      by (simp add: s t Scalar list_all2_map1 list_all2_map2 list_all2_mono)
  next
    case (Array xs)
    have one: "length us = 1 \<Longrightarrow> R (hd us) (hd vs)"
      using uv by (cases us; cases vs) simp_all
    have zip: "length us = length xs \<Longrightarrow> list_all2 R (map2 f us xs) (map2 f vs xs)"
      using uv assms(2) len
      by (auto simp add: list_all2_conv_all_nth)
    show ?thesis
      using uv assms(2) len one zip
      by (auto simp add: s t Array list_all2_map1 list_all2_map2 list_all2_same
          list_all2_mono)
  qed
qed

lemma add_impurities_append:
  "add_impurities c wl ssa cossalb (pre @ post)
   = (case add_impurities c wl ssa cossalb pre of
        Inl e \<Rightarrow> Inl e
      | Inr x \<Rightarrow> add_impurities c wl ssa x post)"
  by (induction pre arbitrary: cossalb) (auto split: sum.splits)

lemma add_impurities_monotone:
  "nd_rel never_decreases x y
   \<Longrightarrow> result_never_decreases (add_impurities c wl ssa x post) (add_impurities c wl ssa y post)"
proof (induction post arbitrary: x y)
  case Nil
  then show ?case by (simp add: result_never_decreases_def)
next
  case (Cons item post)
  obtain s v where item: "item = (s, v)" by (cases item)
  show ?case
  proof (cases "species_MAC c wl s (density_of v)")
    case (Inl e)
    then show ?thesis by (simp add: item result_never_decreases_def)
  next
    case (Inr m)
    have "nd_rel never_decreases (x + Scalar (Num 2 / ssa * content_of v) * m)
            (y + Scalar (Num 2 / ssa * content_of v) * m)"
      unfolding plus_ndarray_def
      by (rule nd_rel_bcast_left[OF Cons.prems]) (rule never_decreases_add_right)
    from Cons.IH[OF this] show ?thesis by (simp add: item Inr)
  qed
qed


lemma np_le_never_decreases: "np_le a b \<Longrightarrow> never_decreases a b"
  by (cases a; cases b) (auto simp add: never_decreases_def np_le_def np_eq_def)

lemma two_over_ssa: "np_gt ssa (Num 0) \<Longrightarrow> nonneg_or_nan (Num 2 / ssa)"
  by (cases ssa)
     (auto simp add: np_gt_def nonneg_or_nan_def np_ge_def np_le_def np_eq_def divide_npf_def)

lemma mac_element_nonneg:
  "np_gt w (Num 0) \<Longrightarrow> np_gt d (Num 0) \<Longrightarrow> nonneg_or_nan (Num (6 * pi) / w / d * np_abs n)"
  by (cases w; cases d; cases n)
     (auto simp add: np_gt_def nonneg_or_nan_def np_ge_def np_le_def np_eq_def divide_npf_def
        times_npf_def inf_signed_def sgn_if)

lemma mac_from_index_nonneg:
  assumes "list_all (\<lambda>w. np_gt w (Num 0)) (elements wavelengths)"
    and "np_gt d (Num 0)"
    and "mac_from_index wavelengths species (Some d) (nd_map h wavelengths) = Inr MAC"
  shows "list_all nonneg_or_nan (elements MAC)"
proof -
  have "MAC = nd_map (\<lambda>w. Num (6 * pi) / w / d * np_abs (h w)) wavelengths"
    using assms(3) by (auto simp add: mac_from_index_def nd_ops nd_pointwise)
  then show ?thesis
    using assms(1,2) by (simp add: elements_nd_map list_all_iff mac_element_nonneg)
qed

lemma species_MAC_nonneg:
  assumes wl: "list_all (\<lambda>w. np_gt w (Num 0)) (elements wavelengths)"
    and dens: "density_positive density"
    and mae: "dust_MAE_nonneg c wavelengths species"
    and mac: "species_MAC c wavelengths species density = Inr MAC"
  shows "list_all nonneg_or_nan (elements MAC)"
proof -
  consider (soot) "species \<in> set [''soot'', ''BC'']"
    | (hulis) "species \<notin> set [''soot'', ''BC'']" "species = ''hulis''"
    | (dust) "species \<notin> set [''soot'', ''BC'']" "species = ''dust''"
    | (skiles) "species \<notin> set [''soot'', ''BC'']" "species = ''dust_skiles''"
    | (caponi) "species \<notin> set [''soot'', ''BC'']"
        "species \<notin> set [''hulis'', ''dust'', ''dust_skiles'']"
    by auto
  then show ?thesis
  proof cases
    case soot
    obtain d where d: "(case density of None \<Rightarrow> Some (Num 1270) | Some d \<Rightarrow> Some d) = Some d"
      and pos: "np_gt d (Num 0)"
      using dens by (cases density) (simp_all add: density_positive_def np_gt_def)
    have "mac_from_index wavelengths species (Some d)
            (nd_map (refsoot_imag c (Num 1)) wavelengths) = Inr MAC"
      using mac soot unfolding species_MAC_def d[symmetric] by auto
    from mac_from_index_nonneg[OF wl pos this] show ?thesis .
  next
    case hulis
    from mac hulis obtain d where d: "density = Some d"
      by (cases density) (auto simp add: species_MAC_def mac_from_index_def)
    have pos: "np_gt d (Num 0)" using dens by (simp add: d density_positive_def)
    have "mac_from_index wavelengths species (Some d) (nd_map (refhulis_imag c) wavelengths)
          = Inr MAC"
      using mac hulis unfolding species_MAC_def d by simp
    from mac_from_index_nonneg[OF wl pos this] show ?thesis .
  next
    case dust
    from mac dust obtain d where d: "density = Some d"
      by (cases density) (auto simp add: species_MAC_def mac_from_index_def)
    have pos: "np_gt d (Num 0)" using dens by (simp add: d density_positive_def)
    have "mac_from_index wavelengths species (Some d) (nd_map (refdust_imag c None) wavelengths)
          = Inr MAC"
      using mac dust unfolding species_MAC_def d by simp
    from mac_from_index_nonneg[OF wl pos this] show ?thesis .
  next
    case skiles
    from mac skiles obtain d where d: "density = Some d"
      by (cases density) (auto simp add: species_MAC_def mac_from_index_def)
    have pos: "np_gt d (Num 0)" using dens by (simp add: d density_positive_def)
    have "mac_from_index wavelengths species (Some d)
            (nd_map (refdust_imag c (Some ''skiles2014'')) wavelengths) = Inr MAC"
      using mac skiles unfolding species_MAC_def d by simp
    from mac_from_index_nonneg[OF wl pos this] show ?thesis .
  next
    case caponi
    from mac caponi obtain f where f: "MAE_dust_caponi c (drop 5 species) = Some f"
      and m: "MAC = nd_map f wavelengths"
      unfolding species_MAC_def by (auto split: if_splits option.splits)
    show ?thesis
      using mae by (simp add: m f dust_MAE_nonneg_def elements_nd_map list_all_iff)
  qed
qed

lemma cossalb_unfold:
  "compute_co_single_scattering_albedo c wavelengths ssa (Some imps) ni B g
   = (case compute_co_single_scattering_albedo c wavelengths ssa None ni B g of
        Inl e \<Rightarrow> Inl e
      | Inr base \<Rightarrow> add_impurities c wavelengths ssa base imps)"
  by (simp add: compute_co_single_scattering_albedo_def Let_def)

lemma density_of_impurity_of [simp]: "density_of (impurity_of x density) = density"
  by (cases density) (simp_all add: impurity_of_def)

lemma content_of_impurity_of [simp]: "content_of (impurity_of x density) = x"
  by (cases density) (simp_all add: impurity_of_def)

lemma add_impurities_sum:
  "find (bad_species c) imps = None
   \<Longrightarrow> add_impurities c wl ssa base imps
       = Inr (foldl (+) base (map (impurity_term c wl ssa) imps))"
proof (induction imps arbitrary: base)
  case Nil
  show ?case by simp
next
  case (Cons item imps)
  obtain s v where item: "item = (s, v)" by (cases item)
  from Cons.prems have good: "\<not> bad_species c (s, v)" and rest: "find (bad_species c) imps = None"
    by (simp_all add: item split: if_splits)
  obtain m where m: "species_MAC c wl s (density_of v) = Inr m"
    using species_MAC_good[OF good] by blast
  show ?case
    using Cons.IH[OF rest, of "base + Scalar (Num 2 / ssa * content_of v) * m"]
    by (simp add: item m impurity_term_def)
qed

lemma one_species_monotone:
  assumes wl: "list_all (\<lambda>w. np_gt w (Num 0)) (elements wavelengths)"
    and ssa: "np_gt ssa (Num 0)"
    and dens: "density_positive density"
    and mae: "dust_MAE_nonneg c wavelengths species"
    and conc: "np_le c1 c2"
  shows "result_never_decreases
           (add_impurities c wavelengths ssa x ((species, impurity_of c1 density) # post))
           (add_impurities c wavelengths ssa x ((species, impurity_of c2 density) # post))"
proof (cases "species_MAC c wavelengths species density")
  case (Inl e)
  then show ?thesis by (simp add: result_never_decreases_def)
next
  case (Inr m)
  have nn: "list_all nonneg_or_nan (elements m)"
    using species_MAC_nonneg[OF wl dens mae Inr] .
  have k: "never_decreases (Num 2 / ssa * c1) (Num 2 / ssa * c2)"
    using never_decreases_mul_left[OF np_le_never_decreases[OF conc] two_over_ssa[OF ssa]] .
  have "nd_rel never_decreases (Scalar (Num 2 / ssa * c1) * m) (Scalar (Num 2 / ssa * c2) * m)"
    unfolding times_ndarray_def nd_scalar_left
    using nn by (intro nd_rel_map never_decreases_mul_right[OF k]) (simp add: list_all_iff)
  then have "nd_rel never_decreases (x + Scalar (Num 2 / ssa * c1) * m)
               (x + Scalar (Num 2 / ssa * c2) * m)"
    unfolding plus_ndarray_def
    by (rule nd_rel_bcast_right) (rule never_decreases_add_left)
  from add_impurities_monotone[OF this] show ?thesis by (simp add: Inr)
qed

lemma example_cossalb:
  "d \<noteq> 0 \<Longrightarrow>
   compute_co_single_scattering_albedo example_collaborators (Array [Num 1]) (Num 20)
     (Some [(''BC'', WithDensity (Num x) (Num d))]) (Dataset ''p2016'') default_B default_g
   = Inr (Array [Num (x * (3 * pi / 5) / d)])"
  by (simp add: compute_co_single_scattering_albedo_def example_collaborators_def default_B_def
      species_MAC_def mac_from_index_def Let_def nd_ops np_eq_def)






end
